theory Spec2Isabelle
  imports Main "HOL-Library.Word"
begin

section \<open>Values of the downloader pipeline\<close>

text \<open>
  The sources embedded here are \<^verbatim>\<open>scrapy/http/response/__init__.py\<close> (class Response),
  \<^verbatim>\<open>scrapy/core/downloader/middleware.py\<close> (class DownloaderMiddlewareManager) and
  \<^verbatim>\<open>scrapy/extensions/feedexport.py\<close> (FeedExporter.close_spider).

  Python \<^verbatim>\<open>bytes\<close> are lists of 8-bit words, Python integers are \<open>int\<close>, every
  \<^verbatim>\<open>raise\<close> is the \<open>Inl\<close> branch of a sum.
\<close>

type_synonym bytes = "8 word list"

text \<open>
  Exceptions. \<open>InvalidOutput\<close> is \<^verbatim>\<open>scrapy.exceptions._InvalidOutput\<close>; its two
  arguments are the two values the message is formatted from: the \<^verbatim>\<open>__qualname__\<close> of the
  offending method and the class name of the value it returned. \<open>Raised\<close> is any other
  exception, named by its class (for instance \<^verbatim>\<open>IgnoreRequest\<close>, or a transport failure).
\<close>

datatype exn =
    InvalidOutput string string
  | TypeError string
  | Raised string

text \<open>
  A Response object. \<open>ident\<close> is the identity of the object: Response defines neither
  \<^verbatim>\<open>__eq__\<close> nor \<^verbatim>\<open>__hash__\<close>, so membership in a WeakSet is by identity, and two
  Responses with the same content are different members. The body cannot be assigned after
  construction (the property's setter is \<^verbatim>\<open>obsolete_setter\<close>), so one identity has one
  body for all its life.

  \<open>truth\<close> is what \<^verbatim>\<open>bool(response)\<close> gives. Response defines neither
  \<^verbatim>\<open>__bool__\<close> nor \<^verbatim>\<open>__len__\<close>, so an instance of Response itself is true; an
  instance of a subclass that defines one of them can be false, and
  \<^verbatim>\<open>isinstance(result, Response)\<close> holds of it all the same.
\<close>

record response =
  ident :: nat
  url :: string
  status :: int
  body :: bytes
  truth :: bool

text \<open>A Request object: its url, and what \<^verbatim>\<open>bool(request)\<close> gives.\<close>

datatype request = Request (request_url: string) (request_truth: bool)

text \<open>
  What a middleware method or the download function can hand back: \<^verbatim>\<open>None\<close>, a Response,
  a Request, or an object of any other class (named by \<^verbatim>\<open>__class__.__name__\<close>).
\<close>

datatype pyval =
    PyNone
  | Resp response
  | Req request
  | Other string

fun class_name :: "pyval \<Rightarrow> string" where
  "class_name PyNone = ''NoneType''"
| "class_name (Resp r) = ''Response''"
| "class_name (Req q) = ''Request''"
| "class_name (Other c) = c"

text \<open>
  \<^verbatim>\<open>isinstance(result, (Response, Request))\<close> and the truth value tested by
  \<^verbatim>\<open>if result:\<close>. \<^verbatim>\<open>None\<close> is false; a Response or a Request is as true as the
  object says. The truth value of an object of another class is never consulted: the type
  check before it raises.
\<close>

fun isinstance_Response_Request :: "pyval \<Rightarrow> bool" where
  "isinstance_Response_Request (Resp r) = True"
| "isinstance_Response_Request (Req q) = True"
| "isinstance_Response_Request v = False"

fun bool_of :: "pyval \<Rightarrow> bool" where
  "bool_of PyNone = False"
| "bool_of (Resp r) = truth r"
| "bool_of (Req q) = request_truth q"
| "bool_of (Other c) = True"

section \<open>Response construction\<close>

text \<open>An argument passed to the constructor of Response for \<^verbatim>\<open>url\<close> or \<^verbatim>\<open>body\<close>.\<close>

datatype arg =
    NoneArg
  | BytesArg bytes
  | StrArg string
  | OtherArg string

fun type_name :: "arg \<Rightarrow> string" where
  "type_name NoneArg = ''NoneType''"
| "type_name (BytesArg b) = ''bytes''"
| "type_name (StrArg s) = ''str''"
| "type_name (OtherArg c) = c"

definition body_must_be_bytes :: string where
  "body_must_be_bytes =
     ''Response body must be bytes. If you want to pass unicode body use TextResponse or HtmlResponse.''"

text \<open>\<^verbatim>\<open>Response._set_body\<close>.\<close>

fun set_body :: "response \<Rightarrow> arg \<Rightarrow> exn + response" where
  "set_body self NoneArg = Inr (self\<lparr>body := []\<rparr>)"
| "set_body self (BytesArg b) = Inr (self\<lparr>body := b\<rparr>)"
| "set_body self a = Inl (TypeError body_must_be_bytes)"

text \<open>\<^verbatim>\<open>Response._set_url\<close>.\<close>

fun set_url :: "response \<Rightarrow> arg \<Rightarrow> exn + response" where
  "set_url self (StrArg u) = Inr (self\<lparr>url := u\<rparr>)"
| "set_url self a = Inl (TypeError (''Response url must be str, got '' @ type_name a @ '':''))"

text \<open>
  \<^verbatim>\<open>Response.__init__\<close>, for the fields the pipeline reads: the status (an integer already),
  then \<^verbatim>\<open>_set_body\<close>, then \<^verbatim>\<open>_set_url\<close>. The first argument is the identity of the new
  object, which is an instance of Response itself and so is true.
\<close>

definition Response_init :: "nat \<Rightarrow> arg \<Rightarrow> int \<Rightarrow> arg \<Rightarrow> exn + response" where
  "Response_init oid url_arg status_arg body_arg =
     (case set_body \<lparr>ident = oid, url = [], status = status_arg, body = [], truth = True\<rparr> body_arg of
        Inl e \<Rightarrow> Inl e
      | Inr self \<Rightarrow> set_url self url_arg)"

section \<open>The downloader middleware manager\<close>

text \<open>
  A bound method of a middleware: its \<^verbatim>\<open>__qualname__\<close> and what calling it does, which
  is to return a value or to raise. The argument is what the call passes apart from the
  spider, which is the same in every call of a run.
\<close>

record 'a bound_method =
  qualname :: string
  call :: "'a \<Rightarrow> exn + pyval"

text \<open>
  A middleware object. Each of the three methods is optional: \<open>None\<close> is
  \<^verbatim>\<open>hasattr(mw, ...)\<close> being false.
\<close>

record middleware =
  mw_process_request :: "request bound_method option"
  mw_process_response :: "(request \<times> pyval) bound_method option"
  mw_process_exception :: "(request \<times> exn) bound_method option"

text \<open>
  The calls a run makes to its collaborators, in order. This log is not a field of the
  source; it records which methods and which download function were invoked, and with what.
\<close>

datatype invocation =
    CallProcessRequest string request
  | CallDownload request
  | CallProcessResponse string request pyval
  | CallProcessException string request exn

text \<open>
  The manager: the three deques \<^verbatim>\<open>self.methods[...]\<close>, the counter
  \<^verbatim>\<open>response_active_size\<close>, the WeakSet \<^verbatim>\<open>_tracked_responses\<close>, and the log.
\<close>

record manager =
  methods_process_request :: "request bound_method list"
  methods_process_response :: "(request \<times> pyval) bound_method list"
  methods_process_exception :: "(request \<times> exn) bound_method list"
  response_active_size :: int
  tracked_responses :: "response set"
  calls :: "invocation list"

text \<open>\<^verbatim>\<open>DownloaderMiddlewareManager._add_middleware\<close>.\<close>

definition add_middleware :: "manager \<Rightarrow> middleware \<Rightarrow> manager" where
  "add_middleware self mw =
     (let self1 = (case mw_process_request mw of
                     None \<Rightarrow> self
                   | Some m \<Rightarrow> self\<lparr>methods_process_request := methods_process_request self @ [m]\<rparr>);
          self2 = (case mw_process_response mw of
                     None \<Rightarrow> self1
                   | Some m \<Rightarrow> self1\<lparr>methods_process_response := m # methods_process_response self1\<rparr>);
          self3 = (case mw_process_exception mw of
                     None \<Rightarrow> self2
                   | Some m \<Rightarrow> self2\<lparr>methods_process_exception := m # methods_process_exception self2\<rparr>)
      in self3)"

text \<open>
  Modelled from the spec: the constructor of the base class MiddlewareManager
  (\<^verbatim>\<open>scrapy/middleware.py\<close>, not among the sources). The registry is "built once from a
  list of middleware objects": the three lists start empty and \<^verbatim>\<open>_add_middleware\<close> is
  called on each middleware in the order of the list. The constructor of
  DownloaderMiddlewareManager then sets the counter to 0 and the tracking set to empty.
\<close>

definition manager_init :: "middleware list \<Rightarrow> manager" where
  "manager_init middlewares =
     foldl add_middleware
       \<lparr>methods_process_request = [], methods_process_response = [],
        methods_process_exception = [], response_active_size = 0,
        tracked_responses = {}, calls = []\<rparr>
       middlewares"

subsection \<open>The in-flight size tracker\<close>

text \<open>\<^verbatim>\<open>_count_response_size\<close>.\<close>

definition count_response_size :: "manager \<Rightarrow> response \<Rightarrow> manager" where
  "count_response_size self response =
     (if response \<in> tracked_responses self then self
      else self\<lparr>tracked_responses := insert response (tracked_responses self),
                response_active_size := response_active_size self + int (length (body response))\<rparr>)"

text \<open>\<^verbatim>\<open>_discount_response_size\<close>.\<close>

definition discount_response_size :: "manager \<Rightarrow> int \<Rightarrow> manager" where
  "discount_response_size self sz = self\<lparr>response_active_size := response_active_size self - sz\<rparr>"

text \<open>
  What the runtime does when a Response becomes unreachable: the WeakSet drops it, and the
  finalizer registered by \<^verbatim>\<open>_count_response_size\<close> runs, which is
  \<^verbatim>\<open>_discount_response_size\<close> applied to the size taken when the Response was counted.
  A Response that was never counted has no finalizer.
\<close>

definition finalize_response :: "manager \<Rightarrow> response \<Rightarrow> manager" where
  "finalize_response self response =
     (if response \<in> tracked_responses self
      then discount_response_size
             (self\<lparr>tracked_responses := tracked_responses self - {response}\<rparr>)
             (int (length (body response)))
      else self)"

text \<open>The invariant of the tracker: the counter is the sum of the tracked body lengths.\<close>

definition tracker_inv :: "manager \<Rightarrow> bool" where
  "tracker_inv self \<longleftrightarrow>
     finite (tracked_responses self) \<and>
     response_active_size self = (\<Sum>r \<in> tracked_responses self. int (length (body r)))"

subsection \<open>A pipeline run\<close>

definition logged :: "manager \<Rightarrow> invocation \<Rightarrow> manager" where
  "logged self c = self\<lparr>calls := calls self @ [c]\<rparr>"

text \<open>
  The inner function \<^verbatim>\<open>process_request\<close> of \<^verbatim>\<open>download\<close>: the loop over
  \<^verbatim>\<open>self.methods["process_request"]\<close>, and after it the call of \<^verbatim>\<open>download_func\<close>.
\<close>

fun process_request_loop ::
  "request bound_method list \<Rightarrow> manager \<Rightarrow> (request \<Rightarrow> exn + pyval) \<Rightarrow> request \<Rightarrow> manager \<times> (exn + pyval)"
where
  "process_request_loop [] self download_func request =
     (logged self (CallDownload request), download_func request)"
| "process_request_loop (mth # rest) self download_func request =
     (let self1 = logged self (CallProcessRequest (qualname mth) request) in
      case call mth request of
        Inl e \<Rightarrow> (self1, Inl e)
      | Inr result \<Rightarrow>
          if result \<noteq> PyNone \<and> \<not> isinstance_Response_Request result
          then (self1, Inl (InvalidOutput (qualname mth) (class_name result)))
          else
            let self2 = (case result of Resp r \<Rightarrow> count_response_size self1 r | _ \<Rightarrow> self1) in
            if bool_of result then (self2, Inr result)
            else process_request_loop rest self2 download_func request)"

definition process_request ::
  "manager \<Rightarrow> (request \<Rightarrow> exn + pyval) \<Rightarrow> request \<Rightarrow> manager \<times> (exn + pyval)"
where
  "process_request self download_func request =
     process_request_loop (methods_process_request self) self download_func request"

text \<open>The inner function \<^verbatim>\<open>process_response\<close>.\<close>

fun process_response_loop ::
  "(request \<times> pyval) bound_method list \<Rightarrow> manager \<Rightarrow> request \<Rightarrow> pyval \<Rightarrow> manager \<times> (exn + pyval)"
where
  "process_response_loop [] self request result = (self, Inr result)"
| "process_response_loop (mth # rest) self request result =
     (let self1 = logged self (CallProcessResponse (qualname mth) request result) in
      case call mth (request, result) of
        Inl e \<Rightarrow> (self1, Inl e)
      | Inr result' \<Rightarrow>
          (case result' of
             Req q \<Rightarrow> (self1, Inr result')
           | Resp r \<Rightarrow> process_response_loop rest (count_response_size self1 r) request result'
           | _ \<Rightarrow> (self1, Inl (InvalidOutput (qualname mth) (class_name result')))))"

definition process_response :: "manager \<Rightarrow> request \<Rightarrow> pyval \<Rightarrow> manager \<times> (exn + pyval)" where
  "process_response self request response =
     (case response of
        PyNone \<Rightarrow> (self, Inl (TypeError ''Received None in process_response''))
      | Req q \<Rightarrow> (self, Inr response)
      | _ \<Rightarrow> process_response_loop (methods_process_response self) self request response)"

text \<open>
  The inner function \<^verbatim>\<open>process_exception\<close>. Returning the failure leaves the run failed
  with it.
\<close>

fun process_exception_loop ::
  "(request \<times> exn) bound_method list \<Rightarrow> manager \<Rightarrow> request \<Rightarrow> exn \<Rightarrow> manager \<times> (exn + pyval)"
where
  "process_exception_loop [] self request failure = (self, Inl failure)"
| "process_exception_loop (mth # rest) self request failure =
     (let self1 = logged self (CallProcessException (qualname mth) request failure) in
      case call mth (request, failure) of
        Inl e \<Rightarrow> (self1, Inl e)
      | Inr result \<Rightarrow>
          if result \<noteq> PyNone \<and> \<not> isinstance_Response_Request result
          then (self1, Inl (InvalidOutput (qualname mth) (class_name result)))
          else
            let self2 = (case result of Resp r \<Rightarrow> count_response_size self1 r | _ \<Rightarrow> self1) in
            if bool_of result then (self2, Inr result)
            else process_exception_loop rest self2 request failure)"

definition process_exception :: "manager \<Rightarrow> request \<Rightarrow> exn \<Rightarrow> manager \<times> (exn + pyval)" where
  "process_exception self request failure =
     process_exception_loop (methods_process_exception self) self request failure"

text \<open>
  \<^verbatim>\<open>DownloaderMiddlewareManager.download\<close>: the Deferred of \<^verbatim>\<open>process_request\<close> with
  \<^verbatim>\<open>process_exception\<close> added as errback and then \<^verbatim>\<open>process_response\<close> as callback.
  A failure of \<^verbatim>\<open>process_request\<close> goes to the errback; what the errback returns, unless
  it is a failure, goes to the callback, as does a result of \<^verbatim>\<open>process_request\<close>.
  Within one run every \<^verbatim>\<open>yield\<close> waits for its Deferred, so the run is the sequence of
  its calls.
\<close>

definition download ::
  "manager \<Rightarrow> (request \<Rightarrow> exn + pyval) \<Rightarrow> request \<Rightarrow> manager \<times> (exn + pyval)"
where
  "download self download_func request =
     (case process_request self download_func request of
        (self1, Inl failure) \<Rightarrow>
          (case process_exception self1 request failure of
             (self2, Inl failure') \<Rightarrow> (self2, Inl failure')
           | (self2, Inr result) \<Rightarrow> process_response self2 request result)
      | (self1, Inr result) \<Rightarrow> process_response self1 request result)"




text \<open>
  The manager and the value with which \<^verbatim>\<open>download\<close> calls \<^verbatim>\<open>process_response\<close>:
  the result of \<^verbatim>\<open>process_request\<close>, or what \<^verbatim>\<open>process_exception\<close> made of its
  failure; \<open>None\<close> when the run ends failed in \<^verbatim>\<open>process_exception\<close> and the callback is
  not called.
\<close>

definition response_phase_input ::
  "manager \<Rightarrow> (request \<Rightarrow> exn + pyval) \<Rightarrow> request \<Rightarrow> (manager \<times> pyval) option"
where
  "response_phase_input self download_func request =
     (case process_request self download_func request of
        (self1, Inl failure) \<Rightarrow>
          (case process_exception self1 request failure of
             (self2, Inl failure') \<Rightarrow> None
           | (self2, Inr result) \<Rightarrow> Some (self2, result))
      | (self1, Inr result) \<Rightarrow> Some (self1, result))"

section \<open>Feed export: closing the spider\<close>

text \<open>
  A \<^verbatim>\<open>_FeedSlot\<close>. Its file, exporter and storage are named by the slot's uri in the
  events below.
\<close>

record feed_slot =
  uri :: string
  store_empty :: bool
  itemcount :: int
  exporting :: bool

datatype feed_event =
    ExporterFinishExporting string
  | StorageStore string

text \<open>\<^verbatim>\<open>_FeedSlot.finish_exporting\<close>.\<close>

definition finish_exporting :: "feed_slot \<Rightarrow> feed_slot \<times> feed_event list" where
  "finish_exporting slot =
     (if exporting slot then (slot\<lparr>exporting := False\<rparr>, [ExporterFinishExporting (uri slot)])
      else (slot, []))"

text \<open>
  What \<^verbatim>\<open>close_spider\<close> returns: the Deferred of one store, a DeferredList of the
  stores made, or \<^verbatim>\<open>None\<close>. A Deferred is named by the uri of the slot it stores.
\<close>

datatype close_result =
    ReturnDeferred string
  | ReturnDeferredList "string list"
  | ReturnNone

text \<open>
  \<^verbatim>\<open>FeedExporter.close_spider\<close>: the loop over \<^verbatim>\<open>self.slots\<close>, given the slots still to
  visit, \<^verbatim>\<open>deferred_list\<close> and the events so far. It returns the slots as the loop leaves
  them, the events, and the returned value.
\<close>

fun close_spider_loop ::
  "feed_slot list \<Rightarrow> string list \<Rightarrow> feed_event list \<Rightarrow> feed_slot list \<times> feed_event list \<times> close_result"
where
  "close_spider_loop [] deferred_list events =
     ([], events, if deferred_list \<noteq> [] then ReturnDeferredList deferred_list else ReturnNone)"
| "close_spider_loop (slot # rest) deferred_list events =
     (if itemcount slot = 0 \<and> \<not> store_empty slot
      then (slot # rest, events @ [StorageStore (uri slot)], ReturnDeferred (uri slot))
      else
        (case finish_exporting slot of
           (slot', finished) \<Rightarrow>
             (case close_spider_loop rest (deferred_list @ [uri slot])
                     (events @ finished @ [StorageStore (uri slot)]) of
                (slots', events', returned) \<Rightarrow> (slot' # slots', events', returned))))"

definition close_spider :: "feed_slot list \<Rightarrow> feed_slot list \<times> feed_event list \<times> close_result" where
  "close_spider slots = close_spider_loop slots [] []"

section \<open>Example values\<close>

text \<open>Concrete inputs at which the theorems below are instantiated.\<close>

definition example_response :: response where
  "example_response =
     \<lparr>ident = 1, url = ''http://a.example/'', status = 200, body = [0x61, 0x62, 0x63],
       truth = True\<rparr>"

definition example_middlewares :: "middleware list" where
  "example_middlewares =
     [\<lparr>mw_process_request = Some \<lparr>qualname = ''A.process_request'', call = (\<lambda>q. Inr PyNone)\<rparr>,
       mw_process_response = Some \<lparr>qualname = ''A.process_response'', call = (\<lambda>(q, v). Inr v)\<rparr>,
       mw_process_exception = None\<rparr>,
      \<lparr>mw_process_request = None,
       mw_process_response = Some \<lparr>qualname = ''B.process_response'', call = (\<lambda>(q, v). Inr v)\<rparr>,
       mw_process_exception = Some \<lparr>qualname = ''B.process_exception'', call = (\<lambda>(q, e). Inr PyNone)\<rparr>\<rparr>,
      \<lparr>mw_process_request = Some \<lparr>qualname = ''C.process_request'', call = (\<lambda>q. Inr PyNone)\<rparr>,
       mw_process_response = None,
       mw_process_exception = Some \<lparr>qualname = ''C.process_exception'', call = (\<lambda>(q, e). Inr PyNone)\<rparr>\<rparr>]"

definition example_slots :: "feed_slot list" where
  "example_slots =
     [\<lparr>uri = ''a.json'', store_empty = False, itemcount = 2, exporting = True\<rparr>,
      \<lparr>uri = ''b.json'', store_empty = False, itemcount = 0, exporting = False\<rparr>,
      \<lparr>uri = ''c.json'', store_empty = True, itemcount = 5, exporting = True\<rparr>]"

definition example_request :: request where
  "example_request = Request ''http://a.example/'' True"

definition example_redirect :: request where
  "example_redirect = Request ''http://b.example/'' True"

text \<open>Methods that return a fixed value, or the response they are given.\<close>

definition returns :: "pyval \<Rightarrow> 'a \<Rightarrow> exn + pyval" where
  "returns v x = Inr v"

definition passes_response :: "request \<times> pyval \<Rightarrow> exn + pyval" where
  "passes_response x = Inr (snd x)"

text \<open>Download functions: one that answers every request, one that fails.\<close>

definition download_ok :: "request \<Rightarrow> exn + pyval" where
  "download_ok q =
     Inr (Resp \<lparr>ident = 2, url = request_url q, status = 200, body = [0x78, 0x79], truth = True\<rparr>)"





definition downloaded_response :: response where
  "downloaded_response =
     \<lparr>ident = 2, url = ''http://a.example/'', status = 200, body = [0x78, 0x79], truth = True\<rparr>"

definition redirect_middlewares :: "middleware list" where
  "redirect_middlewares =
     [\<lparr>mw_process_request = None,
       mw_process_response = Some \<lparr>qualname = ''Third.process_response'', call = returns (Other ''int'')\<rparr>,
       mw_process_exception = None\<rparr>,
      \<lparr>mw_process_request = None,
       mw_process_response = Some \<lparr>qualname = ''Redirect.process_response'', call = returns (Req example_redirect)\<rparr>,
       mw_process_exception = None\<rparr>,
      \<lparr>mw_process_request = None,
       mw_process_response = Some \<lparr>qualname = ''First.process_response'', call = passes_response\<rparr>,
       mw_process_exception = None\<rparr>]"






section \<open>The in-flight size tracker and the body of a Response\<close>

lemma count_response_size_twice:
  "count_response_size (count_response_size self r) r = count_response_size self r"
  by (simp add: count_response_size_def)

lemma count_response_size_funpow:
  "((\<lambda>s. count_response_size s r) ^^ Suc n) self = count_response_size self r"
  by (induction n) (simp_all add: count_response_size_twice)

lemma count_response_size_tracked:
  "tracked_responses (count_response_size self r) = insert r (tracked_responses self)"
  by (auto simp: count_response_size_def)

lemma count_response_size_counter:
  "response_active_size (count_response_size self r) =
     response_active_size self
       + (if r \<in> tracked_responses self then 0 else int (length (body r)))"
  by (simp add: count_response_size_def)

lemma foldl_count_response_size_tracked:
  "tracked_responses (foldl count_response_size self rs) = tracked_responses self \<union> set rs"
  by (induction rs arbitrary: self) (auto simp: count_response_size_tracked)

lemma sum_new_responses:
  fixes f :: "response \<Rightarrow> int"
  shows "(\<Sum>x \<in> set (r # rs) - T. f x) =
           (if r \<in> T then 0 else f r) + (\<Sum>x \<in> set rs - insert r T. f x)"
proof (cases "r \<in> T")
  case True
  then have "set (r # rs) - T = set rs - insert r T"
    by auto
  then have "(\<Sum>x \<in> set (r # rs) - T. f x) = (\<Sum>x \<in> set rs - insert r T. f x)"
    by (rule arg_cong)
  with True show ?thesis
    by (simp only: if_True add_0)
next
  case False
  then have eq: "set (r # rs) - T = insert r (set rs - insert r T)"
    by auto
  have fin: "finite (set rs - insert r T)"
    by (rule finite_Diff) (rule finite_set)
  have notin: "r \<notin> set rs - insert r T"
    by blast
  have "(\<Sum>x \<in> set (r # rs) - T. f x) = f r + (\<Sum>x \<in> set rs - insert r T. f x)"
    by (simp only: eq sum.insert [OF fin notin])
  with False show ?thesis
    by (simp only: if_False)
qed

lemma foldl_count_response_size_counter:
  "response_active_size (foldl count_response_size self rs) =
     response_active_size self
       + (\<Sum>x \<in> set rs - tracked_responses self. int (length (body x)))"
proof (induction rs arbitrary: self)
  case Nil
  show ?case by simp
next
  case (Cons r rs)
  show ?case
    by (simp only: foldl_Cons Cons.IH count_response_size_tracked count_response_size_counter
        sum_new_responses [of _ r rs "tracked_responses self"])
qed

text \<open>
  Claim C7. Tracking is idempotent. Tracking a Response that is already in the tracking set
  changes nothing. After tracking, the tracking set is the one before with the Response
  added, and the counter has grown by the length of its body if it was not in the set and
  not at all if it was. So tracking twice is tracking once, and tracking the same Response
  any number of times in a row (at least once) adds the length of its body once. More
  generally, after tracking the Responses of a list in order, whatever the order and however
  often each occurs, the tracking set has gained the Responses of the list and the counter
  has grown by the body length of each Response of the list that was not tracked before,
  counted once.
\<close>

theorem track_idempotent:
  "(r \<in> tracked_responses self \<longrightarrow> count_response_size self r = self)
   \<and> tracked_responses (count_response_size self r) = insert r (tracked_responses self)
   \<and> response_active_size (count_response_size self r)
       = response_active_size self
         + (if r \<in> tracked_responses self then 0 else int (length (body r)))
   \<and> count_response_size (count_response_size self r) r = count_response_size self r
   \<and> response_active_size (((\<lambda>s. count_response_size s r) ^^ Suc n) self)
       = response_active_size self
         + (if r \<in> tracked_responses self then 0 else int (length (body r)))
   \<and> tracked_responses (foldl count_response_size self rs) = tracked_responses self \<union> set rs
   \<and> response_active_size (foldl count_response_size self rs)
       = response_active_size self
         + (\<Sum>x \<in> set rs - tracked_responses self. int (length (body x)))"
proof -
  have "r \<in> tracked_responses self \<longrightarrow> count_response_size self r = self"
    by (simp add: count_response_size_def)
  moreover have "response_active_size (((\<lambda>s. count_response_size s r) ^^ Suc n) self)
       = response_active_size self
         + (if r \<in> tracked_responses self then 0 else int (length (body r)))"
    by (simp only: count_response_size_funpow count_response_size_counter)
  ultimately show ?thesis
    using count_response_size_tracked [of self r] count_response_size_counter [of self r]
      count_response_size_twice [of self r]
      foldl_count_response_size_tracked [of self rs]
      foldl_count_response_size_counter [of self rs]
    by blast
qed

theorem track_idempotent_witness:
  "example_response \<in> tracked_responses (count_response_size (manager_init []) example_response)
   \<and> count_response_size (count_response_size (manager_init []) example_response) example_response
       = count_response_size (manager_init []) example_response
   \<and> response_active_size
        (((\<lambda>s. count_response_size s example_response) ^^ Suc 4) (manager_init [])) = 3
   \<and> downloaded_response \<in> tracked_responses
        (foldl count_response_size (manager_init [])
           [example_response, downloaded_response, example_response])
   \<and> response_active_size
        (foldl count_response_size (manager_init [])
           [example_response, downloaded_response, example_response]) = 5"
  using track_idempotent [of example_response "count_response_size (manager_init []) example_response" 4
      "[example_response, downloaded_response, example_response]"]
    track_idempotent [of example_response "manager_init []" 4
      "[example_response, downloaded_response, example_response]"]
  by (simp add: count_response_size_def manager_init_def example_response_def
      downloaded_response_def)

lemma tracker_inv_count:
  "tracker_inv self \<Longrightarrow> tracker_inv (count_response_size self r)"
  by (simp add: tracker_inv_def count_response_size_def)

lemma tracker_inv_finalize:
  "tracker_inv self \<Longrightarrow> tracker_inv (finalize_response self r)"
  by (simp add: tracker_inv_def finalize_response_def discount_response_size_def sum.remove)

lemma tracker_inv_foldl_add:
  "tracker_inv self \<Longrightarrow> tracker_inv (foldl add_middleware self mws)"
proof (induction mws arbitrary: self)
  case Nil
  then show ?case by simp
next
  case (Cons mw mws)
  have "tracker_inv (add_middleware self mw)"
    using Cons.prems
    by (simp add: tracker_inv_def add_middleware_def Let_def split: option.splits)
  then show ?case using Cons.IH by simp
qed

text \<open>
  Claim C8. The counter equals the sum of the body lengths of the Responses in the tracking
  set: this holds of a new manager, and every track operation and every release
  (finalization) keeps it.
\<close>

theorem tracker_invariant:
  "tracker_inv (manager_init mws)
   \<and> (tracker_inv self \<longrightarrow>
        tracker_inv (count_response_size self r) \<and> tracker_inv (finalize_response self r))"
proof -
  have "tracker_inv (manager_init mws)"
    unfolding manager_init_def
    by (rule tracker_inv_foldl_add) (simp add: tracker_inv_def)
  then show ?thesis
    using tracker_inv_count tracker_inv_finalize by blast
qed

theorem tracker_invariant_witness:
  "tracker_inv (count_response_size (manager_init []) example_response)
   \<and> tracker_inv (count_response_size (count_response_size (manager_init []) example_response) example_response)
   \<and> tracker_inv (finalize_response (count_response_size (manager_init []) example_response) example_response)
   \<and> response_active_size (count_response_size (manager_init []) example_response) = 3
   \<and> response_active_size
        (finalize_response (count_response_size (manager_init []) example_response) example_response) = 0"
  using tracker_invariant [of "[]" "manager_init []" example_response]
    tracker_invariant [of "[]" "count_response_size (manager_init []) example_response" example_response]
  by (simp add: count_response_size_def finalize_response_def discount_response_size_def
      manager_init_def example_response_def)

text \<open>
  Claim C10. Constructing a Response with \<^verbatim>\<open>body=None\<close> gives the empty body; with a
  bytes body, that body; with a body that is neither (a \<^verbatim>\<open>str\<close>, or an object of any
  other class) it raises TypeError. So a Response that was constructed has a bytes body,
  the empty one or the one given, and tracking it when it is not tracked adds the length
  of that body to the counter.
\<close>

theorem Response_body:
  "Response_init oid (StrArg u) st NoneArg = Inr \<lparr>ident = oid, url = u, status = st, body = [], truth = True\<rparr>
   \<and> Response_init oid (StrArg u) st (BytesArg b) = Inr \<lparr>ident = oid, url = u, status = st, body = b, truth = True\<rparr>
   \<and> Response_init oid url_arg st (StrArg s) = Inl (TypeError body_must_be_bytes)
   \<and> Response_init oid url_arg st (OtherArg c) = Inl (TypeError body_must_be_bytes)
   \<and> (Response_init oid url_arg st body_arg = Inr r \<longrightarrow>
        (body_arg = NoneArg \<and> body r = [] \<or> body_arg = BytesArg (body r))
        \<and> (r \<notin> tracked_responses self \<longrightarrow>
             response_active_size (count_response_size self r)
               = response_active_size self + int (length (body r))))"
  by (cases body_arg; cases url_arg)
     (auto simp: Response_init_def count_response_size_def)

theorem Response_body_witness:
  "Response_init 1 (StrArg ''http://a.example/'') 200 (BytesArg [0x61, 0x62, 0x63]) = Inr example_response
   \<and> example_response \<notin> tracked_responses (manager_init [])
   \<and> response_active_size (count_response_size (manager_init []) example_response)
        = response_active_size (manager_init []) + 3"
  using Response_body [of 1 "''http://a.example/''" 200 "[0x61, 0x62, 0x63]" "StrArg ''http://a.example/''" "[]" "[]"
      "BytesArg [0x61, 0x62, 0x63]" example_response "manager_init []"]
  by (simp add: example_response_def manager_init_def)

section \<open>The registry\<close>

lemma foldl_add_middleware_methods:
  "methods_process_request (foldl add_middleware self mws)
     = methods_process_request self @ List.map_filter mw_process_request mws
   \<and> methods_process_response (foldl add_middleware self mws)
     = rev (List.map_filter mw_process_response mws) @ methods_process_response self
   \<and> methods_process_exception (foldl add_middleware self mws)
     = rev (List.map_filter mw_process_exception mws) @ methods_process_exception self"
proof (induction mws arbitrary: self)
  case Nil
  show ?case by simp
next
  case (Cons mw mws)
  show ?case
    by (simp add: Cons.IH)
       (simp add: add_middleware_def Let_def split: option.splits)
qed

text \<open>
  Claim C2. After the middlewares of a list have been registered, the request methods are
  the \<^verbatim>\<open>process_request\<close> methods of those that have one, in the order of registration,
  and the response and exception methods are the \<^verbatim>\<open>process_response\<close> and
  \<^verbatim>\<open>process_exception\<close> methods of those that have one, in the reverse of that order.
\<close>

theorem registration_order:
  "methods_process_request (manager_init mws) = List.map_filter mw_process_request mws
   \<and> methods_process_response (manager_init mws) = rev (List.map_filter mw_process_response mws)
   \<and> methods_process_exception (manager_init mws) = rev (List.map_filter mw_process_exception mws)"
  unfolding manager_init_def by (simp add: foldl_add_middleware_methods)

theorem registration_order_witness:
  "map qualname (methods_process_request (manager_init example_middlewares))
     = [''A.process_request'', ''C.process_request'']
   \<and> map qualname (methods_process_response (manager_init example_middlewares))
     = [''B.process_response'', ''A.process_response'']
   \<and> map qualname (methods_process_exception (manager_init example_middlewares))
     = [''C.process_exception'', ''B.process_exception'']"
  using registration_order [of example_middlewares]
  by (simp add: example_middlewares_def)

section \<open>Closing the feed slots\<close>

lemma close_spider_loop_early:
  "\<forall>p \<in> set pre. \<not> (itemcount p = 0 \<and> \<not> store_empty p) \<Longrightarrow>
   itemcount s = 0 \<and> \<not> store_empty s \<Longrightarrow>
   close_spider_loop (pre @ s # post) deferred_list events =
     (map (\<lambda>p. fst (finish_exporting p)) pre @ s # post,
      events @ concat (map (\<lambda>p. snd (finish_exporting p) @ [StorageStore (uri p)]) pre)
        @ [StorageStore (uri s)],
      ReturnDeferred (uri s))"
proof (induction pre arbitrary: deferred_list events)
  case Nil
  then show ?case by simp
next
  case (Cons p pre)
  then show ?case by (simp add: case_prod_beta)
qed

text \<open>
  Claim C9. When the slots hold one with no item and \<^verbatim>\<open>store_empty\<close> false,
  \<^verbatim>\<open>close_spider\<close> returns at the first such slot, having stored its file and nothing
  else of it: the slots before it are finished and stored, the slots after it are left as
  they were, with no event for them, and the value returned is the Deferred of that one
  store.
\<close>

theorem close_spider_returns_early:
  assumes "\<forall>p \<in> set pre. \<not> (itemcount p = 0 \<and> \<not> store_empty p)"
    and "itemcount s = 0 \<and> \<not> store_empty s"
  shows "close_spider (pre @ s # post) =
     (map (\<lambda>p. fst (finish_exporting p)) pre @ s # post,
      concat (map (\<lambda>p. snd (finish_exporting p) @ [StorageStore (uri p)]) pre)
        @ [StorageStore (uri s)],
      ReturnDeferred (uri s))"
  using close_spider_loop_early [OF assms, of post "[]" "[]"]
  by (simp add: close_spider_def)

theorem close_spider_returns_early_witness:
  "close_spider example_slots =
     ([\<lparr>uri = ''a.json'', store_empty = False, itemcount = 2, exporting = False\<rparr>,
       \<lparr>uri = ''b.json'', store_empty = False, itemcount = 0, exporting = False\<rparr>,
       \<lparr>uri = ''c.json'', store_empty = True, itemcount = 5, exporting = True\<rparr>],
      [ExporterFinishExporting ''a.json'', StorageStore ''a.json'', StorageStore ''b.json''],
      ReturnDeferred ''b.json'')"
  using close_spider_returns_early
    [of "[\<lparr>uri = ''a.json'', store_empty = False, itemcount = 2, exporting = True\<rparr>]"
        "\<lparr>uri = ''b.json'', store_empty = False, itemcount = 0, exporting = False\<rparr>"
        "[\<lparr>uri = ''c.json'', store_empty = True, itemcount = 5, exporting = True\<rparr>]"]
  by (simp add: example_slots_def finish_exporting_def)

section \<open>A pipeline run: short circuits and faults\<close>



lemma process_response_loop_append:
  "process_response_loop pre self request v = (self1, Inr (Resp r1)) \<Longrightarrow>
   process_response_loop (pre @ rest) self request v = process_response_loop rest self1 request (Resp r1)"
  by (induction pre arbitrary: self v) (auto simp: Let_def split: sum.splits pyval.splits)

lemma count_response_size_fields [simp]:
  "methods_process_request (count_response_size self r) = methods_process_request self"
  "methods_process_response (count_response_size self r) = methods_process_response self"
  "methods_process_exception (count_response_size self r) = methods_process_exception self"
  "calls (count_response_size self r) = calls self"
  by (simp_all add: count_response_size_def)

lemma logged_fields [simp]:
  "methods_process_request (logged self c) = methods_process_request self"
  "methods_process_response (logged self c) = methods_process_response self"
  "methods_process_exception (logged self c) = methods_process_exception self"
  "response_active_size (logged self c) = response_active_size self"
  "tracked_responses (logged self c) = tracked_responses self"
  "calls (logged self c) = calls self @ [c]"
  by (simp_all add: logged_def)

lemma process_request_loop_methods:
  "process_request_loop ms self df request = (self', out) \<Longrightarrow>
   methods_process_response self' = methods_process_response self
   \<and> methods_process_exception self' = methods_process_exception self"
  by (induction ms arbitrary: self)
     (auto simp: Let_def split: sum.splits pyval.splits if_splits)

lemma process_exception_loop_methods:
  "process_exception_loop ms self request failure = (self', out) \<Longrightarrow>
   methods_process_response self' = methods_process_response self"
  by (induction ms arbitrary: self)
     (auto simp: Let_def split: sum.splits pyval.splits if_splits)

lemma response_phase_input_methods:
  assumes "response_phase_input self df request = Some (self0, v)"
  shows "methods_process_response self0 = methods_process_response self"
proof (cases "process_request self df request")
  case (Pair self1 out1)
  note m1 = process_request_loop_methods [OF Pair [unfolded process_request_def]]
  show ?thesis
  proof (cases out1)
    case (Inr v1)
    with assms Pair m1 show ?thesis by (simp add: response_phase_input_def)
  next
    case (Inl f)
    obtain self2 out2 where p2: "process_exception self1 request f = (self2, out2)"
      by (cases "process_exception self1 request f")
    note m2 = process_exception_loop_methods [OF p2 [unfolded process_exception_def]]
    from assms Pair Inl p2 m1 m2 show ?thesis
      by (cases out2) (simp_all add: response_phase_input_def)
  qed
qed

lemma download_response_phase:
  "response_phase_input self df request = Some (self0, v) \<Longrightarrow>
   download self df request = process_response self0 request v"
  by (auto simp: response_phase_input_def download_def split: prod.splits sum.splits)






text \<open>
  Claim C4. When the response phase is entered with a Response and a response method,
  reached because the ones before it all returned Responses, returns a Request: the phase
  and the run end with that Request, and the last call of the run is the call of that
  method, so no later response method is called.
\<close>

theorem response_stage_request_short_circuits:
  assumes "response_phase_input self download_func request = Some (self0, Resp r0)"
    and "methods_process_response self = pre @ m # post"
    and "process_response_loop pre self0 request (Resp r0) = (self1, Inr (Resp r1))"
    and "call m (request, Resp r1) = Inr (Req q)"
  shows "process_response self0 request (Resp r0) =
           (logged self1 (CallProcessResponse (qualname m) request (Resp r1)), Inr (Req q))
         \<and> download self download_func request =
           (logged self1 (CallProcessResponse (qualname m) request (Resp r1)), Inr (Req q))"
proof -
  have "methods_process_response self0 = pre @ m # post"
    using response_phase_input_methods [OF assms(1)] assms(2) by simp
  then have "process_response self0 request (Resp r0) =
               process_response_loop (m # post) self1 request (Resp r1)"
    by (simp add: process_response_def process_response_loop_append [OF assms(3)])
  also have "\<dots> = (logged self1 (CallProcessResponse (qualname m) request (Resp r1)), Inr (Req q))"
    using assms(4) by simp
  finally show ?thesis
    using download_response_phase [OF assms(1)] by simp
qed

theorem response_stage_request_short_circuits_witness:
  "download (manager_init redirect_middlewares) download_ok example_request =
     ((manager_init redirect_middlewares)
        \<lparr>response_active_size := 2, tracked_responses := {downloaded_response},
         calls := [CallDownload example_request,
                   CallProcessResponse ''First.process_response'' example_request (Resp downloaded_response),
                   CallProcessResponse ''Redirect.process_response'' example_request (Resp downloaded_response)]\<rparr>,
      Inr (Req example_redirect))"
  using response_stage_request_short_circuits
    [of "manager_init redirect_middlewares" download_ok example_request
        "(manager_init redirect_middlewares)\<lparr>calls := [CallDownload example_request]\<rparr>"
        downloaded_response
        "[\<lparr>qualname = ''First.process_response'', call = passes_response\<rparr>]"
        "\<lparr>qualname = ''Redirect.process_response'', call = returns (Req example_redirect)\<rparr>"
        "[\<lparr>qualname = ''Third.process_response'', call = returns (Other ''int'')\<rparr>]"
        "(manager_init redirect_middlewares)
           \<lparr>response_active_size := 2, tracked_responses := {downloaded_response},
            calls := [CallDownload example_request,
                      CallProcessResponse ''First.process_response'' example_request (Resp downloaded_response)]\<rparr>"
        downloaded_response example_redirect]
  by (simp add: manager_init_def redirect_middlewares_def add_middleware_def returns_def
      passes_response_def response_phase_input_def process_request_def logged_def
      count_response_size_def download_ok_def downloaded_response_def example_request_def)



section \<open>The downloaded Response and the tracker\<close>

text \<open>
  Claim C1, on the code. With no middleware registered the download function is called
  with the request and its Response, whose body has 2 bytes, is the output of the run; but
  \<^verbatim>\<open>process_request\<close> returns what \<^verbatim>\<open>download_func\<close> gives without counting it, and
  \<^verbatim>\<open>process_response\<close> counts only what a response method returns: the counter is 0
  before and after the run, and the tracking set stays empty.
\<close>

theorem downloaded_response_not_tracked:
  "download (manager_init []) download_ok example_request =
     ((manager_init [])\<lparr>calls := [CallDownload example_request]\<rparr>, Inr (Resp downloaded_response))
   \<and> length (body downloaded_response) = 2
   \<and> response_active_size (manager_init []) = 0
   \<and> response_active_size (fst (download (manager_init []) download_ok example_request)) = 0
   \<and> tracked_responses (fst (download (manager_init []) download_ok example_request)) = {}"
  by (simp add: manager_init_def download_def process_request_def process_response_def
      logged_def download_ok_def downloaded_response_def example_request_def)

section \<open>Validation of what a method returns\<close>








end
